theory Spec2Isabelle
  imports Main "HOL-Library.Word"
begin

section \<open>Basic types\<close>

text \<open>
  \<open>peer.ID\<close> is a Go string. A \<open>time.Time\<close> is read as a count of nanoseconds and a
  \<open>time.Duration\<close> is an \<open>int64\<close> count of nanoseconds, so durations are 64-bit words
  read with \<open>sint\<close>, and their arithmetic wraps; Go's \<open>int\<close> is taken at its 64-bit
  width. \<open>Time_Add\<close> and \<open>Time_Before\<close> are \<open>Add\<close> and \<open>Before\<close> of \<open>time.Time\<close>.
\<close>

type_synonym peer_ID = string
type_synonym Time = int
type_synonym Duration = "64 word"

definition Time_Add :: "Time \<Rightarrow> Duration \<Rightarrow> Time" where
  "Time_Add t d = t + sint d"

definition Time_Before :: "Time \<Rightarrow> Time \<Rightarrow> bool" where
  "Time_Before t u = (t < u)"

section \<open>The backoff registry\<close>

record backoffPeer =
  tries :: "64 word"
  until :: Time

record DialBackoff =
  entries :: "(peer_ID \<rightharpoonup> backoffPeer) option"

text \<open>The package variables \<open>BackoffBase\<close>, \<open>BackoffCoef\<close> and \<open>BackoffMax\<close>.\<close>

record backoff_vars =
  BackoffBase :: Duration
  BackoffCoef :: Duration
  BackoffMax :: Duration

definition Second :: Duration where
  "Second = 1000000000"

definition Minute :: Duration where
  "Minute = 60 * Second"

definition default_vars :: backoff_vars where
  "default_vars = \<lparr>BackoffBase = Second * 5, BackoffCoef = Second, BackoffMax = Minute * 5\<rparr>"

text \<open>The zero value of \<open>DialBackoff\<close>: a nil map.\<close>

definition zero_DialBackoff :: DialBackoff where
  "zero_DialBackoff = \<lparr>entries = None\<rparr>"

definition init :: "DialBackoff \<Rightarrow> DialBackoff" where
  "init db = (case entries db of None \<Rightarrow> db\<lparr>entries := Some Map.empty\<rparr> | Some m \<Rightarrow> db)"

text \<open>Reading \<open>db.entries[p]\<close>; a nil map reads as an empty one.\<close>

definition lookup :: "DialBackoff \<Rightarrow> peer_ID \<Rightarrow> backoffPeer option" where
  "lookup db p = (case entries db of None \<Rightarrow> None | Some m \<Rightarrow> m p)"

definition Backoff :: "Time \<Rightarrow> DialBackoff \<Rightarrow> peer_ID \<Rightarrow> bool \<times> DialBackoff" where
  "Backoff now db p =
     (let db1 = init db in
      case lookup db1 p of
        Some bp \<Rightarrow> if Time_Before now (until bp) then (True, db1) else (False, db1)
      | None \<Rightarrow> (False, db1))"

definition AddBackoff :: "backoff_vars \<Rightarrow> Time \<Rightarrow> DialBackoff \<Rightarrow> peer_ID \<Rightarrow> DialBackoff" where
  "AddBackoff v now db p =
     (let db1 = init db;
          m = (case entries db1 of None \<Rightarrow> Map.empty | Some m \<Rightarrow> m)
      in case m p of
           None \<Rightarrow>
             db1\<lparr>entries := Some (m(p \<mapsto> \<lparr>tries = 1, until = Time_Add now (BackoffBase v)\<rparr>))\<rparr>
         | Some bp \<Rightarrow>
             let backoffTime = BackoffBase v + BackoffCoef v * (tries bp * tries bp);
                 backoffTime = (if sint backoffTime > sint (BackoffMax v)
                                then BackoffMax v else backoffTime)
             in db1\<lparr>entries :=
                  Some (m(p \<mapsto> bp\<lparr>until := Time_Add now backoffTime, tries := tries bp + 1\<rparr>))\<rparr>)"

definition Clear :: "DialBackoff \<Rightarrow> peer_ID \<Rightarrow> DialBackoff" where
  "Clear db p =
     (let db1 = init db;
          m = (case entries db1 of None \<Rightarrow> Map.empty | Some m \<Rightarrow> m)
      in db1\<lparr>entries := Some (m(p := None))\<rparr>)"

section \<open>Errors\<close>

text \<open>
  The error values of the package (\<open>errors.New\<close> at package level), the errors of the
  libraries that the code compares against or returns, and the errors it builds with
  \<open>fmt.Errorf\<close> and \<open>errors.New\<close>, which keep their arguments.
\<close>

datatype error =
    ErrDialBackoff
  | ErrDialFailed
  | ErrDialToSelf
  | ErrNoTransport
  | ErrNoRemoteAddrs \<comment> \<open>\<open>inet.ErrNoRemoteAddrs\<close>\<close>
  | Canceled \<comment> \<open>\<open>context.Canceled\<close>\<close>
  | DeadlineExceeded \<comment> \<open>\<open>context.DeadlineExceeded\<close>\<close>
  | ErrEmptyPeerID \<comment> \<open>\<open>peer.ErrEmptyPeerID\<close>, from \<open>p.Validate()\<close>\<close>
  | errors_New string
  | DialAttemptFailed error \<comment> \<open>\<open>"dial attempt failed: %s"\<close>\<close>
  | AddrDialAttemptFailed peer_ID peer_ID error \<comment> \<open>\<open>"%s --> %s dial attempt failed: %s"\<close>\<close>
  | TransportBug peer_ID peer_ID string \<comment> \<open>\<open>"BUG in transport %T: tried to dial %s, dialed %s"\<close>\<close>
  | InvalidConn \<comment> \<open>\<open>"swarm connHandler: invalid conn (not a conn.Conn): %s"\<close>\<close>
  | OtherError string \<comment> \<open>an error of a transport or of another collaborator\<close>

section \<open>Addresses, connections and transports\<close>

text \<open>
  A multiaddr is the list of its components, each a protocol code with its value; two
  multiaddrs are equal when their bytes are.
\<close>

type_synonym Multiaddr = "(nat \<times> string) list"

definition Protocols :: "Multiaddr \<Rightarrow> nat list" where
  "Protocols a = map fst a"

definition P_IP4 :: nat where
  "P_IP4 = 4"

definition P_IP6 :: nat where
  "P_IP6 = 41"

type_synonym PubKey = string

text \<open>
  What the code reads of a \<open>conn.Conn\<close> and of a \<open>transport.Conn\<close>; a nil
  \<open>RemotePublicKey()\<close> is \<open>None\<close>.
\<close>

record net_Conn =
  LocalMultiaddr :: Multiaddr
  RemoteMultiaddr :: Multiaddr
  LocalPeer :: peer_ID
  RemotePeer :: peer_ID
  RemotePublicKey :: "PubKey option"

text \<open>A \<open>ps.Conn\<close>: its \<open>NetConn()\<close>, which need not be a \<open>conn.Conn\<close>, and its groups.\<close>

datatype NetConn = a_conn_Conn net_Conn | other_net_Conn

record ps_Conn =
  NetConn :: NetConn
  Groups :: "peer_ID list"

type_synonym Conn = ps_Conn

text \<open>The state of a context when it is looked at: \<open>ctx.Err()\<close>, nil while it is live.\<close>

datatype ctx_reason = ctx_Canceled | ctx_DeadlineExceeded

type_synonym Context = "ctx_reason option"

fun ctx_Err :: "ctx_reason \<Rightarrow> error" where
  "ctx_Err ctx_Canceled = Canceled"
| "ctx_Err ctx_DeadlineExceeded = DeadlineExceeded"

record Transport =
  tpt_name :: string
  CanDial :: "Multiaddr \<Rightarrow> bool"
  Dial :: "Context \<Rightarrow> Multiaddr \<Rightarrow> peer_ID \<Rightarrow> error + net_Conn"

record dialJob =
  addr :: Multiaddr
  peer :: peer_ID

record dialResult =
  Conn :: "net_Conn option"
  Addr :: Multiaddr
  Err :: "error option"

text \<open>The calls made on the dial limiter, in order.\<close>

datatype limiter_call = AddDialJob dialJob | clearAllPeerDials peer_ID

datatype Direction = DirInbound | DirOutbound

section \<open>The swarm\<close>

text \<open>
  The fields of \<open>Swarm\<close> that the dial code uses. The collaborators are given by what
  they answer (\<open>peers.Addrs\<close>, \<open>TransportForDialing\<close>, \<open>InterfaceListenAddresses\<close>,
  \<open>Filters.AddrBlocked\<close>, the two views of the connection table, the selector behind
  \<open>bestDest\<close>) or by the calls made on them (\<open>peers.AddPubKey\<close>, the limiter, \<open>Close\<close>).
  \<open>AddrOverNonLocalIP\<close> is the function of that name of the address library, and
  \<open>addConn_refuses\<close> says for which connections \<open>addConn\<close> returns an error.
\<close>

record Swarm =
  local :: peer_ID
  peers_Addrs :: "peer_ID \<Rightarrow> Multiaddr list"
  peers_AddPubKey :: "(peer_ID \<times> PubKey) list"
  backf :: DialBackoff
  TransportForDialing :: "Multiaddr \<Rightarrow> Transport option"
  InterfaceListenAddresses :: "Multiaddr list"
  Filters_AddrBlocked :: "Multiaddr \<Rightarrow> bool"
  AddrOverNonLocalIP :: "Multiaddr \<Rightarrow> bool"
  bestDest :: "(peer_ID \<Rightarrow> Multiaddr list \<Rightarrow> Multiaddr list) option"
  bestConnToPeerWrapper :: "peer_ID \<Rightarrow> Conn option"
  bestConnToPeerFallbackWrapper :: "peer_ID \<Rightarrow> Conn option"
  limiter :: "limiter_call list"
  closed_conns :: "net_Conn list"
  conns :: "Conn list"
  addConn_refuses :: "net_Conn \<Rightarrow> error option"

subsection \<open>Wrapping a connection\<close>

definition wrapConn :: "ps_Conn \<Rightarrow> error + Conn" where
  "wrapConn psc = (case NetConn psc of a_conn_Conn c \<Rightarrow> Inr psc | other_net_Conn \<Rightarrow> Inl InvalidConn)"

text \<open>\<open>RawConn\<close> panics when the type assertion fails: \<open>None\<close>.\<close>

definition RawConn :: "Conn \<Rightarrow> net_Conn option" where
  "RawConn c = (case NetConn c of a_conn_Conn c' \<Rightarrow> Some c' | other_net_Conn \<Rightarrow> None)"

definition Conn_RemotePeer :: "Conn \<Rightarrow> peer_ID option" where
  "Conn_RemotePeer c = map_option RemotePeer (RawConn c)"

definition Conn_RemotePublicKey :: "Conn \<Rightarrow> PubKey option option" where
  "Conn_RemotePublicKey c = map_option RemotePublicKey (RawConn c)"

definition AddPubKey :: "Swarm \<Rightarrow> peer_ID \<Rightarrow> PubKey \<Rightarrow> Swarm" where
  "AddPubKey s p pk = s\<lparr>peers_AddPubKey := peers_AddPubKey s @ [(p, pk)]\<rparr>"

text \<open>
  \<open>newConnSetup\<close> returns the connection with its new group, since \<open>sc\<close> and \<open>psConn\<close>
  are one object. After \<open>wrapConn\<close> has succeeded the accessors cannot panic; the model
  keeps that branch as \<open>None\<close>.
\<close>

definition newConnSetup :: "Swarm \<Rightarrow> ps_Conn \<Rightarrow> ((error + Conn) \<times> Swarm) option" where
  "newConnSetup s psConn =
     (case wrapConn psConn of
        Inl err \<Rightarrow> Some (Inl err, s)
      | Inr sc \<Rightarrow>
          (case (Conn_RemotePublicKey sc, Conn_RemotePeer sc) of
             (Some pk, Some rp) \<Rightarrow>
               let s1 = (case pk of Some k \<Rightarrow> AddPubKey s rp k | None \<Rightarrow> s)
               in Some (Inr (sc\<lparr>Groups := Groups sc @ [rp]\<rparr>), s1)
           | _ \<Rightarrow> None))"

section \<open>Filtering the addresses\<close>

text \<open>
  The functions of the address library that \<open>filterKnownUndialables\<close> calls:
  \<open>SubtractFilter\<close> accepts the addresses that are not among the given ones, \<open>FilterNeg\<close>
  negates a filter, and \<open>FilterAddrs\<close> appends, in order, each address that every filter
  accepts.
\<close>

definition SubtractFilter :: "Multiaddr list \<Rightarrow> Multiaddr \<Rightarrow> bool" where
  "SubtractFilter addrs a = (a \<notin> set addrs)"

definition FilterNeg :: "(Multiaddr \<Rightarrow> bool) \<Rightarrow> Multiaddr \<Rightarrow> bool" where
  "FilterNeg f a = (\<not> f a)"

primrec FilterAddrs_good :: "(Multiaddr \<Rightarrow> bool) list \<Rightarrow> Multiaddr \<Rightarrow> bool \<Rightarrow> bool" where
  "FilterAddrs_good [] a good = good"
| "FilterAddrs_good (f # fs) a good = FilterAddrs_good fs a (good \<and> f a)"

primrec FilterAddrs_loop ::
  "(Multiaddr \<Rightarrow> bool) list \<Rightarrow> Multiaddr list \<Rightarrow> Multiaddr list \<Rightarrow> Multiaddr list" where
  "FilterAddrs_loop fs b [] = b"
| "FilterAddrs_loop fs b (a # as) =
     (if FilterAddrs_good fs a True then FilterAddrs_loop fs (b @ [a]) as
      else FilterAddrs_loop fs b as)"

definition FilterAddrs :: "Multiaddr list \<Rightarrow> (Multiaddr \<Rightarrow> bool) list \<Rightarrow> Multiaddr list" where
  "FilterAddrs a fs = FilterAddrs_loop fs [] a"

definition canDial :: "Swarm \<Rightarrow> Multiaddr \<Rightarrow> bool" where
  "canDial s a = (case TransportForDialing s a of None \<Rightarrow> False | Some t \<Rightarrow> CanDial t a)"

text \<open>The first loop of \<open>filterKnownUndialables\<close>, over the listen addresses.\<close>

primrec ourAddrs_loop :: "Multiaddr list \<Rightarrow> Multiaddr list \<Rightarrow> Multiaddr list" where
  "ourAddrs_loop ourAddrs [] = ourAddrs"
| "ourAddrs_loop ourAddrs (a # lisAddrs) =
     (let protos = Protocols a in
      if length protos = 2 \<and> (protos ! 0 = P_IP4 \<or> protos ! 0 = P_IP6)
      then ourAddrs_loop (ourAddrs @ [a]) lisAddrs
      else ourAddrs_loop ourAddrs lisAddrs)"

definition filterKnownUndialables :: "Swarm \<Rightarrow> Multiaddr list \<Rightarrow> Multiaddr list" where
  "filterKnownUndialables s addrs =
     (let lisAddrs = InterfaceListenAddresses s;
          ourAddrs = ourAddrs_loop [] lisAddrs
      in FilterAddrs addrs
           [SubtractFilter ourAddrs, canDial s, AddrOverNonLocalIP s,
            FilterNeg (Filters_AddrBlocked s)])"

text \<open>
  The filter in the words of its description: an address stays when it is not one of our
  listen addresses of exactly two protocols that start with ip4 or ip6, a transport exists
  that can dial it, it is over a non-local IP, and the policy does not block it.
\<close>

definition our_ip_listen_addr :: "Multiaddr \<Rightarrow> bool" where
  "our_ip_listen_addr l =
     (case Protocols l of [c, d] \<Rightarrow> c = P_IP4 \<or> c = P_IP6 | _ \<Rightarrow> False)"

definition known_dialable :: "Swarm \<Rightarrow> Multiaddr \<Rightarrow> bool" where
  "known_dialable s a =
     (a \<notin> set (filter our_ip_listen_addr (InterfaceListenAddresses s))
      \<and> AddrOverNonLocalIP s a
      \<and> (case TransportForDialing s a of None \<Rightarrow> False | Some t \<Rightarrow> CanDial t a)
      \<and> \<not> Filters_AddrBlocked s a)"

section \<open>Dialing one address\<close>

text \<open>\<open>connC.Close()\<close> is recorded in \<open>closed_conns\<close>.\<close>

definition dialAddr :: "Swarm \<Rightarrow> Context \<Rightarrow> peer_ID \<Rightarrow> Multiaddr \<Rightarrow> (error + net_Conn) \<times> Swarm" where
  "dialAddr s ctx p a =
     (if local s = p then (Inl ErrDialToSelf, s)
      else case TransportForDialing s a of
             None \<Rightarrow> (Inl ErrNoTransport, s)
           | Some tpt \<Rightarrow>
               (case Dial tpt ctx a p of
                  Inl err \<Rightarrow> (Inl (AddrDialAttemptFailed (local s) p err), s)
                | Inr connC \<Rightarrow>
                    if RemotePeer connC \<noteq> p
                    then (Inl (TransportBug p (RemotePeer connC) (tpt_name tpt)),
                          s\<lparr>closed_conns := closed_conns s @ [connC]\<rparr>)
                    else (Inr connC, s)))"

section \<open>The race over the addresses of a peer\<close>

text \<open>
  A call that waits on channels returns, is still waiting when the run of the scheduler
  that is given ends, or is given a run that cannot happen.
\<close>

datatype 'a outcome = Returned 'a | Waiting | Impossible

text \<open>
  What a \<open>select\<close> of \<open>dialAddrs\<close> takes: \<open>ctx.Done()\<close>, with \<open>ctx.Err()\<close>; a result on
  \<open>respch\<close>; the \<open>default\<close> case; a receive on \<open>remoteAddrs\<close>. The run of a call is the list
  of what its selects take, in order.
\<close>

datatype sel = SelDone ctx_reason | SelResp dialResult | SelDefault | SelAddr

definition limitedDial :: "Swarm \<Rightarrow> peer_ID \<Rightarrow> Multiaddr \<Rightarrow> Swarm" where
  "limitedDial s p a = s\<lparr>limiter := limiter s @ [AddDialJob \<lparr>addr = a, peer = p\<rparr>]\<rparr>"

definition defaultDialFail :: error where
  "defaultDialFail = ErrNoRemoteAddrs"

text \<open>
  The loop of \<open>dialAddrs\<close>. \<open>remoteAddrs\<close> is \<open>None\<close> once it has been set to nil, and
  otherwise holds what is left in the channel, which \<open>dial\<close> fills and closes before the
  call: a receive from it gives the next address, or \<open>!ok\<close> when none is left. A nil
  channel is never ready, the first \<open>select\<close> has no receive on \<open>remoteAddrs\<close> and the
  second has no \<open>default\<close>.
\<close>

fun dialAddrs_loop ::
  "Swarm \<Rightarrow> peer_ID \<Rightarrow> Multiaddr list option \<Rightarrow> int \<Rightarrow> error \<Rightarrow> sel list
     \<Rightarrow> ((error + net_Conn) \<times> Swarm) outcome" where
  "dialAddrs_loop s p remoteAddrs active exitErr sched =
     (if remoteAddrs \<noteq> None \<or> active > 0 then
        (case sched of
           [] \<Rightarrow> Waiting
         | SelDone r # _ \<Rightarrow>
             Returned (Inl (if exitErr = defaultDialFail then ctx_Err r else exitErr), s)
         | SelResp resp # rest \<Rightarrow>
             (case Err resp of
                Some e \<Rightarrow> dialAddrs_loop s p remoteAddrs (active - 1) e rest
              | None \<Rightarrow>
                  (case Conn resp of
                     Some c \<Rightarrow> Returned (Inr c, s)
                   | None \<Rightarrow> dialAddrs_loop s p remoteAddrs (active - 1) exitErr rest))
         | SelAddr # _ \<Rightarrow> Impossible
         | SelDefault # sched2 \<Rightarrow>
             (case sched2 of
                [] \<Rightarrow> Waiting
              | SelAddr # rest \<Rightarrow>
                  (case remoteAddrs of
                     None \<Rightarrow> Impossible
                   | Some [] \<Rightarrow> dialAddrs_loop s p None active exitErr rest
                   | Some (a # remaining) \<Rightarrow>
                       dialAddrs_loop (limitedDial s p a) p (Some remaining) (active + 1) exitErr rest)
              | SelDone r # _ \<Rightarrow>
                  Returned (Inl (if exitErr = defaultDialFail then ctx_Err r else exitErr), s)
              | SelResp resp # rest \<Rightarrow>
                  (case Err resp of
                     Some e \<Rightarrow> dialAddrs_loop s p remoteAddrs (active - 1) e rest
                   | None \<Rightarrow>
                       (case Conn resp of
                          Some c \<Rightarrow> Returned (Inr c, s)
                        | None \<Rightarrow> dialAddrs_loop s p remoteAddrs (active - 1) exitErr rest))
              | SelDefault # _ \<Rightarrow> Impossible))
      else Returned (Inl exitErr, s))"

text \<open>\<open>dialAddrs\<close>, with its deferred \<open>clearAllPeerDials\<close>.\<close>

definition dialAddrs ::
  "Swarm \<Rightarrow> peer_ID \<Rightarrow> Multiaddr list \<Rightarrow> sel list \<Rightarrow> ((error + net_Conn) \<times> Swarm) outcome" where
  "dialAddrs s p remoteAddrs sched =
     (case dialAddrs_loop s p (Some remoteAddrs) 0 defaultDialFail sched of
        Returned (r, s') \<Rightarrow> Returned (r, s'\<lparr>limiter := limiter s' @ [clearAllPeerDials p]\<rparr>)
      | Waiting \<Rightarrow> Waiting
      | Impossible \<Rightarrow> Impossible)"

text \<open>The latest error that the results of a run carry, \<open>e\<close> when they carry none.\<close>

fun latest_err :: "error \<Rightarrow> sel list \<Rightarrow> error" where
  "latest_err e [] = e"
| "latest_err e (SelResp resp # rest) =
     latest_err (case Err resp of Some e' \<Rightarrow> e' | None \<Rightarrow> e) rest"
| "latest_err e (_ # rest) = latest_err e rest"

text \<open>The connections that the results of a run carry.\<close>

fun result_conns :: "sel list \<Rightarrow> net_Conn list" where
  "result_conns [] = []"
| "result_conns (SelResp resp # rest) =
     (case Conn resp of Some c \<Rightarrow> c # result_conns rest | None \<Rightarrow> result_conns rest)"
| "result_conns (_ # rest) = result_conns rest"

section \<open>Dialing a peer\<close>

text \<open>
  Modelled from the spec: \<open>addConn\<close>, which \<open>dial\<close> calls and which is not in the source
  file. The spec says of it: "Register the connection with the host (add_conn
  direction=outbound), which provides back the multiplexed wrapper actually returned to
  callers", and lists it as \<open>add_conn(CH, direction) \<rightarrow> WrappedConn\<close>. So it appends the
  wrapper to the connections of the swarm and returns it. \<open>dial\<close> handles an error of
  \<open>addConn\<close>, of which the spec says nothing: \<open>addConn_refuses\<close> says when, and the swarm
  is then taken to be as it was.
\<close>

definition addConn :: "Swarm \<Rightarrow> net_Conn \<Rightarrow> Direction \<Rightarrow> (error + Conn) \<times> Swarm" where
  "addConn s tc dir =
     (case addConn_refuses s tc of
        Some err \<Rightarrow> (Inl err, s)
      | None \<Rightarrow>
          let c = \<lparr>NetConn = a_conn_Conn tc, Groups = []\<rparr>
          in (Inr c, s\<lparr>conns := conns s @ [c]\<rparr>))"

text \<open>
  \<open>dial\<close>. The private key is read for the log only. The channel \<open>goodAddrsChan\<close> is
  filled with \<open>goodAddrs\<close> and closed, which is how \<open>dialAddrs\<close> takes it here.
\<close>

definition dial :: "Swarm \<Rightarrow> peer_ID \<Rightarrow> sel list \<Rightarrow> ((error + Conn) \<times> Swarm) outcome" where
  "dial s p sched =
     (if p = local s then Returned (Inl ErrDialToSelf, s)
      else
        let peerAddrs = peers_Addrs s p in
        if length peerAddrs = 0 then Returned (Inl (errors_New ''no addresses''), s)
        else
          let goodAddrs = filterKnownUndialables s peerAddrs in
          if length goodAddrs = 0 then Returned (Inl (errors_New ''no good addresses''), s)
          else
            let goodAddrs =
                  (case bestDest s of
                     None \<Rightarrow> goodAddrs
                   | Some select \<Rightarrow>
                       let bestAddrs = select p goodAddrs in
                       if length bestAddrs \<noteq> 0 then bestAddrs else goodAddrs)
            in case dialAddrs s p goodAddrs sched of
                 Waiting \<Rightarrow> Waiting
               | Impossible \<Rightarrow> Impossible
               | Returned (Inl err, s1) \<Rightarrow> Returned (Inl err, s1)
               | Returned (Inr connC, s1) \<Rightarrow>
                   (case addConn s1 connC DirOutbound of
                      (Inl err, s2) \<Rightarrow>
                        Returned (Inl err, s2\<lparr>closed_conns := closed_conns s2 @ [connC]\<rparr>)
                    | (Inr swarmC, s2) \<Rightarrow> Returned (Inr swarmC, s2)))"

text \<open>\<open>doDial\<close>; \<open>now\<close> is the time that \<open>AddBackoff\<close> reads.\<close>

definition doDial ::
  "backoff_vars \<Rightarrow> Time \<Rightarrow> Swarm \<Rightarrow> peer_ID \<Rightarrow> sel list \<Rightarrow> ((error + Conn) \<times> Swarm) outcome" where
  "doDial v now s p sched =
     (case bestConnToPeerWrapper s p of
        Some c \<Rightarrow> Returned (Inr c, s)
      | None \<Rightarrow>
          (case dial s p sched of
             Waiting \<Rightarrow> Waiting
           | Impossible \<Rightarrow> Impossible
           | Returned (Inr conn, s1) \<Rightarrow> Returned (Inr conn, s1)
           | Returned (Inl err, s1) \<Rightarrow>
               (case bestConnToPeerFallbackWrapper s1 p of
                  Some conn \<Rightarrow> Returned (Inr conn, s1)
                | None \<Rightarrow>
                    let s2 = (if err \<noteq> Canceled
                              then s1\<lparr>backf := AddBackoff v now (backf s1) p\<rparr>
                              else s1)
                    in Returned (Inl (DialAttemptFailed err), s2))))"

text \<open>\<open>p.Validate()\<close> of the peer library refuses the empty identifier.\<close>

definition Validate :: "peer_ID \<Rightarrow> error option" where
  "Validate p = (if p = [] then Some ErrEmptyPeerID else None)"

text \<open>
  Modelled from the spec: \<open>dsync.DialLock\<close>, which is not in the source file. The spec
  says: "if no effort is in progress for peer, the caller becomes the leader, runs the Dial
  Engine". This is the call of a single caller, with \<open>doDial\<close> as the dial function.
\<close>

definition DialLock ::
  "backoff_vars \<Rightarrow> Time \<Rightarrow> Swarm \<Rightarrow> peer_ID \<Rightarrow> sel list \<Rightarrow> ((error + Conn) \<times> Swarm) outcome" where
  "DialLock v now s p sched = doDial v now s p sched"

text \<open>
  \<open>dialPeer\<close>; \<open>now0\<close> is the time that \<open>Backoff\<close> reads. The timeout that it puts on the
  context shows in the run as \<open>SelDone ctx_DeadlineExceeded\<close>.
\<close>

definition dialPeer ::
  "backoff_vars \<Rightarrow> Time \<Rightarrow> Time \<Rightarrow> Swarm \<Rightarrow> peer_ID \<Rightarrow> sel list
     \<Rightarrow> ((error + Conn) \<times> Swarm) outcome" where
  "dialPeer v now0 now s p sched =
     (case Validate p of
        Some err \<Rightarrow> Returned (Inl err, s)
      | None \<Rightarrow>
          if p = local s then Returned (Inl ErrDialToSelf, s)
          else
            (case bestConnToPeerWrapper s p of
               Some conn \<Rightarrow> Returned (Inr conn, s)
             | None \<Rightarrow>
                 (case Backoff now0 (backf s) p of
                    (True, db) \<Rightarrow> Returned (Inl ErrDialBackoff, s\<lparr>backf := db\<rparr>)
                  | (False, db) \<Rightarrow>
                      (case DialLock v now (s\<lparr>backf := db\<rparr>) p sched of
                         Returned (Inl err, s1) \<Rightarrow> Returned (Inl err, s1)
                       | other \<Rightarrow> other))))"

section \<open>Calls on the backoff registry\<close>

text \<open>A call on the registry, and a sequence of calls, each at the time it reads.\<close>

datatype registry_call = call_Backoff peer_ID | call_AddBackoff peer_ID | call_Clear peer_ID

fun run_call :: "backoff_vars \<Rightarrow> Time \<times> registry_call \<Rightarrow> DialBackoff \<Rightarrow> DialBackoff" where
  "run_call v (now, call_Backoff p) db = snd (Backoff now db p)"
| "run_call v (now, call_AddBackoff p) db = AddBackoff v now db p"
| "run_call v (now, call_Clear p) db = Clear db p"

definition run_calls :: "backoff_vars \<Rightarrow> (Time \<times> registry_call) list \<Rightarrow> DialBackoff \<Rightarrow> DialBackoff" where
  "run_calls v cs db = fold (run_call v) cs db"

text \<open>A swarm and a transport to run the functions on.\<close>

definition tcp_addr :: Multiaddr where
  "tcp_addr = [(4, ''10.0.0.7''), (6, ''4001'')]"

definition good_conn :: net_Conn where
  "good_conn = \<lparr>LocalMultiaddr = [(4, ''10.0.0.1''), (6, ''4001'')], RemoteMultiaddr = tcp_addr,
     LocalPeer = ''me'', RemotePeer = ''QmPeer'', RemotePublicKey = Some ''key''\<rparr>"

definition honest_tpt :: Transport where
  "honest_tpt = \<lparr>tpt_name = ''tcp'', CanDial = (\<lambda>a. True), Dial = (\<lambda>ctx a p. Inr good_conn)\<rparr>"

definition swarm0 :: Swarm where
  "swarm0 = \<lparr>local = ''me'',
     peers_Addrs = (\<lambda>p. if p = ''QmPeer'' then [tcp_addr] else []),
     peers_AddPubKey = [],
     backf = zero_DialBackoff,
     TransportForDialing = (\<lambda>a. Some honest_tpt),
     InterfaceListenAddresses = [[(4, ''10.0.0.1''), (6, ''4001'')]],
     Filters_AddrBlocked = (\<lambda>a. False),
     AddrOverNonLocalIP = (\<lambda>a. True),
     bestDest = None,
     bestConnToPeerWrapper = (\<lambda>p. None),
     bestConnToPeerFallbackWrapper = (\<lambda>p. None),
     limiter = [],
     closed_conns = [],
     conns = [],
     addConn_refuses = (\<lambda>c. None)\<rparr>"

declare dialAddrs_loop.simps [simp del]

section \<open>Properties of the backoff registry\<close>

lemma lookup_init [simp]: "lookup (init db) p = lookup db p"
  by (simp add: lookup_def init_def split: option.splits)

lemma lookup_Backoff [simp]: "lookup (snd (Backoff now db p)) q = lookup db q"
  by (simp add: Backoff_def Let_def split: option.splits)

lemma Backoff_expired:
  "lookup db p = Some bp \<Longrightarrow> until bp \<le> now \<Longrightarrow> Backoff now db p = (False, init db)"
  by (simp add: Backoff_def Let_def Time_Before_def)

lemma lookup_Clear [simp]: "lookup (Clear db p) q = (if q = p then None else lookup db q)"
  by (simp add: Clear_def lookup_def init_def Let_def split: option.splits)

lemma lookup_AddBackoff_other [simp]:
  "q \<noteq> p \<Longrightarrow> lookup (AddBackoff v now db p) q = lookup db q"
  by (simp add: AddBackoff_def lookup_def init_def Let_def split: option.splits)

lemma AddBackoff_absent:
  "lookup db p = None \<Longrightarrow>
   lookup (AddBackoff v now db p) p = Some \<lparr>tries = 1, until = now + sint (BackoffBase v)\<rparr>"
  by (auto simp: AddBackoff_def lookup_def init_def Time_Add_def Let_def split: option.splits)

lemma AddBackoff_present:
  "lookup db p = Some bp \<Longrightarrow>
   lookup (AddBackoff v now db p) p =
     Some \<lparr>tries = tries bp + 1,
           until = now + sint (if sint (BackoffMax v)
                                   < sint (BackoffBase v + BackoffCoef v * (tries bp * tries bp))
                               then BackoffMax v
                               else BackoffBase v + BackoffCoef v * (tries bp * tries bp))\<rparr>"
  by (auto simp: AddBackoff_def lookup_def init_def Time_Add_def Let_def split: option.splits)

lemma AddBackoff_keeps: "lookup db q \<noteq> None \<Longrightarrow> lookup (AddBackoff v now db p) q \<noteq> None"
  by (cases "q = p") (auto simp: AddBackoff_present)

lemma run_call_keeps:
  "lookup db q \<noteq> None \<Longrightarrow> lookup (run_call v c db) q = None \<Longrightarrow> snd c = call_Clear q"
proof (cases c)
  case (Pair now rc)
  assume a: "lookup db q \<noteq> None" "lookup (run_call v c db) q = None"
  show ?thesis
  proof (cases rc)
    case (call_Backoff p)
    then show ?thesis using a Pair by simp
  next
    case (call_AddBackoff p)
    then show ?thesis using a Pair AddBackoff_keeps [of db q v now p] by simp
  next
    case (call_Clear p)
    then show ?thesis using a Pair by (simp split: if_splits)
  qed
qed

lemma run_calls_keeps:
  "lookup db q \<noteq> None \<Longrightarrow> lookup (run_calls v cs db) q = None \<Longrightarrow>
   \<exists>now. (now, call_Clear q) \<in> set cs"
proof (induction cs arbitrary: db)
  case Nil
  then show ?case by (simp add: run_calls_def)
next
  case (Cons c cs)
  show ?case
  proof (cases "lookup (run_call v c db) q = None")
    case True
    with Cons.prems(1) have "snd c = call_Clear q" by (rule run_call_keeps)
    then have "(fst c, call_Clear q) \<in> set (c # cs)" by (cases c) simp
    then show ?thesis by blast
  next
    case False
    moreover have "lookup (run_calls v cs (run_call v c db)) q = None"
      using Cons.prems(2) by (simp add: run_calls_def)
    ultimately have "\<exists>now. (now, call_Clear q) \<in> set cs" by (rule Cons.IH)
    then show ?thesis by auto
  qed
qed

lemma default_vars_values:
  "BackoffBase default_vars = 5000000000" "BackoffCoef default_vars = 1000000000"
  "BackoffMax default_vars = 300000000000"
  by (simp_all add: default_vars_def Second_def Minute_def)

lemma sint_backoffTime:
  fixes k :: "64 word"
  assumes "0 \<le> sint k" "sint k \<le> 96038"
  shows "sint (5000000000 + 1000000000 * (k * k)) = 5000000000 + 1000000000 * (sint k)\<^sup>2"
proof -
  define i where "i = sint k"
  define x where "x = 5000000000 + 1000000000 * (i * i)"
  have k: "k = word_of_int i" by (simp add: i_def)
  have "i * i \<le> 96038 * 96038" using assms unfolding i_def[symmetric] by (intro mult_mono) auto
  moreover have "0 \<le> i * i" by simp
  ultimately have b: "- (2 ^ 63) \<le> x" "x < 2 ^ 63"
    by (auto simp: x_def)
  have "(5000000000 + 1000000000 * (k * k) :: 64 word) = word_of_int x"
    by (simp add: k x_def)
  moreover have "sint (word_of_int x :: 64 word) = x"
    using b by (simp only: sint_sbintrunc' signed_take_bit_int_eq_self_iff) simp
  ultimately show ?thesis by (simp add: x_def i_def power2_eq_square)
qed

lemma AddBackoff_in_range:
  assumes "lookup db p = Some bp" "0 \<le> sint (tries bp)" "sint (tries bp) \<le> 96038"
  shows "lookup (AddBackoff default_vars now db p) p =
         Some \<lparr>tries = tries bp + 1,
               until = now + min 300000000000 (5000000000 + 1000000000 * (sint (tries bp))\<^sup>2)\<rparr>"
  using sint_backoffTime [OF assms(2,3)]
  by (simp add: AddBackoff_present [OF assms(1)] default_vars_values min_def)

text \<open>
  Calling \<open>AddBackoff\<close> for a peer \<open>n\<close> times on the zero value leaves an entry with
  \<open>tries = n\<close>, so every count is reached.
\<close>

lemma AddBackoff_repeat:
  "\<exists>u. lookup (((\<lambda>db. AddBackoff v now db p) ^^ Suc n) zero_DialBackoff) p
         = Some \<lparr>tries = of_nat (Suc n), until = u\<rparr>"
proof (induction n)
  case 0
  have "lookup zero_DialBackoff p = None" by (simp add: zero_DialBackoff_def lookup_def)
  then show ?case by (simp add: AddBackoff_absent)
next
  case (Suc n)
  then obtain u where "lookup (((\<lambda>db. AddBackoff v now db p) ^^ Suc n) zero_DialBackoff) p
         = Some \<lparr>tries = of_nat (Suc n), until = u\<rparr>" by blast
  then show ?case by (simp add: AddBackoff_present add.commute)
qed

text \<open>
  C1. \<open>AddBackoff\<close> on an entry with \<open>tries = 96039\<close>, with the default variables: the
  product \<open>BackoffCoef * tries\<^sup>2\<close> passes \<open>2\<^sup>6\<^sup>3\<close> nanoseconds and wraps to a negative
  duration, which the comparison with \<open>BackoffMax\<close> lets through, so \<open>until\<close> is set about
  292 years before \<open>now\<close> and not to \<open>now\<close> plus five minutes.
\<close>

theorem AddBackoff_wraps_at_96039:
  "lookup (AddBackoff default_vars now
             \<lparr>entries = Some [''QmPeer'' \<mapsto> \<lparr>tries = 96039, until = 0\<rparr>]\<rparr> ''QmPeer'') ''QmPeer''
     = Some \<lparr>tries = 96040, until = now - 9223254547709551616\<rparr>"
  by (simp add: AddBackoff_def lookup_def init_def default_vars_def Second_def Minute_def
        Time_Add_def)

text \<open>
  C10. An entry whose \<open>until\<close> has passed stays in the registry: \<open>Backoff\<close> answers false
  and leaves the entry as it is, a later \<open>AddBackoff\<close> counts on from its \<open>tries\<close> and
  (while the wait does not wrap) waits \<open>min BackoffMax (BackoffBase + BackoffCoef * tries\<^sup>2)\<close>,
  and after any sequence of calls an entry is gone only if \<open>Clear\<close> was called for its peer.
\<close>

theorem backoff_entry_persists:
  assumes "lookup db p = Some bp" and "until bp \<le> now"
  shows "fst (Backoff now db p) = False
       \<and> lookup (snd (Backoff now db p)) p = Some bp
       \<and> map_option tries (lookup (AddBackoff v now' (snd (Backoff now db p)) p) p)
           = Some (tries bp + 1)
       \<and> (0 \<le> sint (tries bp) \<and> sint (tries bp) \<le> 96038 \<longrightarrow>
            lookup (AddBackoff default_vars now' (snd (Backoff now db p)) p) p
              = Some \<lparr>tries = tries bp + 1,
                      until = now' + min 300000000000
                                (5000000000 + 1000000000 * (sint (tries bp))\<^sup>2)\<rparr>)
       \<and> (\<forall>cs. lookup (run_calls v cs db) p = None \<longrightarrow> (\<exists>t. (t, call_Clear p) \<in> set cs))"
proof -
  have b: "lookup (snd (Backoff now db p)) p = Some bp" using assms(1) by simp
  have 1: "fst (Backoff now db p) = False" using Backoff_expired [OF assms] by simp
  have 3: "map_option tries (lookup (AddBackoff v now' (snd (Backoff now db p)) p) p)
           = Some (tries bp + 1)"
    by (simp add: AddBackoff_present [OF b])
  have 4: "0 \<le> sint (tries bp) \<and> sint (tries bp) \<le> 96038 \<longrightarrow>
            lookup (AddBackoff default_vars now' (snd (Backoff now db p)) p) p
              = Some \<lparr>tries = tries bp + 1,
                      until = now' + min 300000000000
                                (5000000000 + 1000000000 * (sint (tries bp))\<^sup>2)\<rparr>"
    using AddBackoff_in_range [OF b] by blast
  have 5: "\<forall>cs. lookup (run_calls v cs db) p = None \<longrightarrow> (\<exists>t. (t, call_Clear p) \<in> set cs)"
    using run_calls_keeps [of db p v] assms(1) by auto
  show ?thesis using 1 b 3 4 5 by blast
qed

theorem backoff_entry_persists_witness:
  "fst (Backoff 10 \<lparr>entries = Some [''QmPeer'' \<mapsto> \<lparr>tries = 3, until = 7\<rparr>]\<rparr> ''QmPeer'') = False
   \<and> lookup (AddBackoff default_vars 20
        (snd (Backoff 10 \<lparr>entries = Some [''QmPeer'' \<mapsto> \<lparr>tries = 3, until = 7\<rparr>]\<rparr> ''QmPeer''))
        ''QmPeer'') ''QmPeer''
       = Some \<lparr>tries = 4, until = 14000000020\<rparr>"
proof -
  let ?db = "\<lparr>entries = Some [''QmPeer'' \<mapsto> \<lparr>tries = 3, until = 7\<rparr>]\<rparr>"
  have h1: "lookup ?db ''QmPeer'' = Some \<lparr>tries = 3, until = 7\<rparr>" by (simp add: lookup_def)
  have h2: "until \<lparr>tries = 3, until = 7\<rparr> \<le> 10" by simp
  show ?thesis
    using backoff_entry_persists [OF h1 h2, of default_vars 20] by simp
qed

section \<open>Properties of the address filter\<close>

lemma FilterAddrs_good_eq: "FilterAddrs_good fs a good = (good \<and> (\<forall>f \<in> set fs. f a))"
  by (induction fs arbitrary: good) auto

lemma FilterAddrs_loop_eq:
  "FilterAddrs_loop fs b as = b @ filter (\<lambda>a. \<forall>f \<in> set fs. f a) as"
  by (induction as arbitrary: b) (simp_all add: FilterAddrs_good_eq)

lemma our_ip_listen_addr_eq:
  "our_ip_listen_addr a =
     (length (Protocols a) = 2 \<and> (Protocols a ! 0 = P_IP4 \<or> Protocols a ! 0 = P_IP6))"
  by (auto simp: our_ip_listen_addr_def split: list.splits)

lemma ourAddrs_loop_eq: "ourAddrs_loop ourAddrs lisAddrs = ourAddrs @ filter our_ip_listen_addr lisAddrs"
  by (induction lisAddrs arbitrary: ourAddrs) (simp_all add: our_ip_listen_addr_eq Let_def)

text \<open>
  C7. \<open>filterKnownUndialables\<close> returns, in their order, exactly the addresses that are
  not one of our listen addresses of two protocols starting with ip4 or ip6, are over a
  non-local IP, have a transport that can dial them, and are not blocked.
\<close>

theorem filterKnownUndialables_is_filter:
  "filterKnownUndialables s addrs = filter (known_dialable s) addrs"
proof -
  have "(\<forall>f \<in> set [SubtractFilter (ourAddrs_loop [] (InterfaceListenAddresses s)), canDial s,
            AddrOverNonLocalIP s, FilterNeg (Filters_AddrBlocked s)]. f a) = known_dialable s a"
    for a
    by (auto simp: known_dialable_def SubtractFilter_def canDial_def FilterNeg_def
          ourAddrs_loop_eq)
  then show ?thesis
    by (simp only: filterKnownUndialables_def FilterAddrs_def FilterAddrs_loop_eq Let_def
          append_Nil)
qed

theorem filterKnownUndialables_is_filter_witness:
  "filterKnownUndialables swarm0 [[(4, ''10.0.0.1''), (6, ''4001'')], tcp_addr] = [tcp_addr]"
  using filterKnownUndialables_is_filter [of swarm0 "[[(4, ''10.0.0.1''), (6, ''4001'')], tcp_addr]"]
  by (simp add: known_dialable_def swarm0_def our_ip_listen_addr_def Protocols_def P_IP4_def
        P_IP6_def tcp_addr_def honest_tpt_def)

section \<open>Properties of \<open>dialAddr\<close>\<close>

text \<open>
  C2. A connection that \<open>dialAddr\<close> returns has the requested peer as its remote peer;
  when the transport returns a connection to another peer, \<open>dialAddr\<close> closes it and
  returns an error.
\<close>

theorem dialAddr_checks_remote_peer:
  "(\<forall>c s'. dialAddr s ctx p a = (Inr c, s') \<longrightarrow> RemotePeer c = p)
   \<and> (\<forall>tpt c. local s \<noteq> p \<and> TransportForDialing s a = Some tpt \<and> Dial tpt ctx a p = Inr c
          \<and> RemotePeer c \<noteq> p \<longrightarrow>
        dialAddr s ctx p a =
          (Inl (TransportBug p (RemotePeer c) (tpt_name tpt)),
           s\<lparr>closed_conns := closed_conns s @ [c]\<rparr>))"
  by (auto simp: dialAddr_def split: if_splits option.splits sum.splits)

theorem dialAddr_checks_remote_peer_witness:
  "dialAddr swarm0 None ''QmPeer'' tcp_addr = (Inr good_conn, swarm0)
   \<and> RemotePeer good_conn = ''QmPeer''
   \<and> dialAddr swarm0 None ''QmOther'' tcp_addr =
        (Inl (TransportBug ''QmOther'' ''QmPeer'' ''tcp''),
         swarm0\<lparr>closed_conns := closed_conns swarm0 @ [good_conn]\<rparr>)"
proof -
  have 1: "dialAddr swarm0 None ''QmPeer'' tcp_addr = (Inr good_conn, swarm0)"
    by (simp add: dialAddr_def swarm0_def honest_tpt_def good_conn_def)
  have 2: "local swarm0 \<noteq> ''QmOther'' \<and> TransportForDialing swarm0 tcp_addr = Some honest_tpt
      \<and> Dial honest_tpt None tcp_addr ''QmOther'' = Inr good_conn
      \<and> RemotePeer good_conn \<noteq> ''QmOther''"
    by (simp add: swarm0_def honest_tpt_def good_conn_def)
  from dialAddr_checks_remote_peer [of swarm0 None "''QmPeer''" tcp_addr] 1
  have "RemotePeer good_conn = ''QmPeer''" by blast
  moreover from dialAddr_checks_remote_peer [of swarm0 None "''QmOther''" tcp_addr] 2
  have "dialAddr swarm0 None ''QmOther'' tcp_addr =
        (Inl (TransportBug ''QmOther'' (RemotePeer good_conn) (tpt_name honest_tpt)),
         swarm0\<lparr>closed_conns := closed_conns swarm0 @ [good_conn]\<rparr>)" by blast
  ultimately show ?thesis using 1 by (simp add: honest_tpt_def)
qed

section \<open>Properties of the race\<close>

lemma loop_Nil:
  "dialAddrs_loop s p ra n ex [] = (if ra \<noteq> None \<or> n > 0 then Waiting else Returned (Inl ex, s))"
  by (subst dialAddrs_loop.simps) simp

lemma loop_exit:
  "ra = None \<Longrightarrow> \<not> n > 0 \<Longrightarrow> dialAddrs_loop s p ra n ex sched = Returned (Inl ex, s)"
  by (subst dialAddrs_loop.simps) simp

lemma loop_Done:
  "ra \<noteq> None \<or> n > 0 \<Longrightarrow> dialAddrs_loop s p ra n ex (SelDone r # rest) =
     Returned (Inl (if ex = defaultDialFail then ctx_Err r else ex), s)"
  by (subst dialAddrs_loop.simps) simp

lemma loop_Resp:
  "ra \<noteq> None \<or> n > 0 \<Longrightarrow> dialAddrs_loop s p ra n ex (SelResp resp # rest) =
     (case Err resp of
        Some e \<Rightarrow> dialAddrs_loop s p ra (n - 1) e rest
      | None \<Rightarrow> (case Conn resp of
                   Some c \<Rightarrow> Returned (Inr c, s)
                 | None \<Rightarrow> dialAddrs_loop s p ra (n - 1) ex rest))"
  by (subst dialAddrs_loop.simps) simp

lemma loop_Addr:
  "ra \<noteq> None \<or> n > 0 \<Longrightarrow> dialAddrs_loop s p ra n ex (SelAddr # rest) = Impossible"
  by (subst dialAddrs_loop.simps) simp

lemma loop_Default_Nil:
  "ra \<noteq> None \<or> n > 0 \<Longrightarrow> dialAddrs_loop s p ra n ex [SelDefault] = Waiting"
  by (subst dialAddrs_loop.simps) simp

lemma loop_Default_Addr:
  "ra \<noteq> None \<or> n > 0 \<Longrightarrow> dialAddrs_loop s p ra n ex (SelDefault # SelAddr # rest) =
     (case ra of
        None \<Rightarrow> Impossible
      | Some [] \<Rightarrow> dialAddrs_loop s p None n ex rest
      | Some (a # remaining) \<Rightarrow> dialAddrs_loop (limitedDial s p a) p (Some remaining) (n + 1) ex rest)"
  by (subst dialAddrs_loop.simps) simp

lemma loop_Default_Done:
  "ra \<noteq> None \<or> n > 0 \<Longrightarrow> dialAddrs_loop s p ra n ex (SelDefault # SelDone r # rest) =
     Returned (Inl (if ex = defaultDialFail then ctx_Err r else ex), s)"
  by (subst dialAddrs_loop.simps) simp

lemma loop_Default_Resp:
  "ra \<noteq> None \<or> n > 0 \<Longrightarrow> dialAddrs_loop s p ra n ex (SelDefault # SelResp resp # rest) =
     (case Err resp of
        Some e \<Rightarrow> dialAddrs_loop s p ra (n - 1) e rest
      | None \<Rightarrow> (case Conn resp of
                   Some c \<Rightarrow> Returned (Inr c, s)
                 | None \<Rightarrow> dialAddrs_loop s p ra (n - 1) ex rest))"
  by (subst dialAddrs_loop.simps) simp

lemma loop_Default_Default:
  "ra \<noteq> None \<or> n > 0 \<Longrightarrow> dialAddrs_loop s p ra n ex (SelDefault # SelDefault # rest) = Impossible"
  by (subst dialAddrs_loop.simps) simp

lemmas loop_eqs = loop_Nil loop_Done loop_Resp loop_Addr loop_Default_Nil loop_Default_Addr
  loop_Default_Done loop_Default_Resp loop_Default_Default

text \<open>The shapes of a run: one per way through an iteration of the loop.\<close>

lemma sched_cases:
  obtains "sched = []"
  | r rest where "sched = SelDone r # rest"
  | resp rest where "sched = SelResp resp # rest"
  | rest where "sched = SelAddr # rest"
  | "sched = [SelDefault]"
  | rest where "sched = SelDefault # SelAddr # rest"
  | r rest where "sched = SelDefault # SelDone r # rest"
  | resp rest where "sched = SelDefault # SelResp resp # rest"
  | rest where "sched = SelDefault # SelDefault # rest"
proof (cases sched)
  case Nil
  then show ?thesis using that by blast
next
  case (Cons x xs)
  show ?thesis
  proof (cases x)
    case SelDefault
    show ?thesis
    proof (cases xs)
      case Nil
      then show ?thesis using that Cons SelDefault by blast
    next
      case (Cons y ys)
      then show ?thesis using that \<open>sched = x # xs\<close> SelDefault by (cases y) blast+
    qed
  qed (use that Cons in blast)+
qed

lemma loop_ctx_done:
  "dialAddrs_loop s p ra n ex pre = Waiting \<Longrightarrow>
   \<exists>s'. dialAddrs_loop s p ra n ex (pre @ [SelDone r]) =
     Returned (Inl (if latest_err ex pre = defaultDialFail then ctx_Err r else latest_err ex pre), s')"
proof (induction "length pre" arbitrary: pre s ra n ex rule: less_induct)
  case less
  show ?case
  proof (cases "ra \<noteq> None \<or> n > 0")
    case False
    then show ?thesis using less.prems by (simp add: loop_exit)
  next
    case g: True
    have IH: "\<exists>s'. dialAddrs_loop s p ra n ex (rest @ [SelDone r]) =
         Returned (Inl (if latest_err ex rest = defaultDialFail then ctx_Err r
                        else latest_err ex rest), s')"
      if "length rest < length pre" "dialAddrs_loop s p ra n ex rest = Waiting"
      for rest s ra n ex
      using less.hyps [OF that] .
    show ?thesis
    proof (cases pre rule: sched_cases)
      case (3 resp rest)
      show ?thesis using g less.prems unfolding 3
        by (cases "Err resp"; cases "Conn resp")
           (simp_all add: loop_eqs IH 3 split del: if_split cong del: if_weak_cong)
    next
      case (6 rest)
      show ?thesis using g less.prems unfolding 6
        by (simp add: loop_eqs IH 6 split: option.splits list.splits split del: if_split
              cong del: if_weak_cong)
    next
      case (8 resp rest)
      show ?thesis using g less.prems unfolding 8
        by (cases "Err resp"; cases "Conn resp")
           (simp_all add: loop_eqs IH 8 split del: if_split cong del: if_weak_cong)
    qed (use g less.prems in \<open>simp_all add: loop_eqs\<close>)
  qed
qed

lemma loop_frame:
  "dialAddrs_loop s p ra n ex sched = Returned (r, s') \<Longrightarrow> \<exists>js. s' = s\<lparr>limiter := js\<rparr>"
proof (induction "length sched" arbitrary: sched s ra n ex rule: less_induct)
  case less
  have same: "\<exists>js. s = s\<lparr>limiter := js\<rparr>" for s :: Swarm
    by (rule exI [of _ "limiter s"]) simp
  show ?case
  proof (cases "ra \<noteq> None \<or> n > 0")
    case False
    then have "s' = s" using less.prems by (simp add: loop_exit)
    then show ?thesis using same by simp
  next
    case g: True
    have IH: "\<exists>js. s' = s\<lparr>limiter := js\<rparr>"
      if "length rest < length sched" "dialAddrs_loop s p ra n ex rest = Returned (r, s')"
      for rest s ra n ex
      using less.hyps [OF that] .
    show ?thesis
    proof (cases sched rule: sched_cases)
      case 1
      then show ?thesis using g less.prems by (simp add: loop_eqs)
    next
      case (2 r rest)
      then have "s' = s" using g less.prems by (simp add: loop_eqs)
      then show ?thesis using same by simp
    next
      case (3 resp rest)
      have "s' = s \<or> (\<exists>e. dialAddrs_loop s p ra (n - 1) e rest = Returned (r, s'))"
        using g less.prems unfolding 3
        by (cases "Err resp"; cases "Conn resp") (auto simp add: loop_eqs)
      then show ?thesis using same IH [of rest] 3 by auto
    next
      case (4 rest)
      then show ?thesis using g less.prems by (simp add: loop_eqs)
    next
      case 5
      then show ?thesis using g less.prems by (simp add: loop_eqs)
    next
      case (6 rest)
      have "(\<exists>ra'. dialAddrs_loop s p ra' n ex rest = Returned (r, s'))
          \<or> (\<exists>a ra'. dialAddrs_loop (limitedDial s p a) p ra' (n + 1) ex rest = Returned (r, s'))"
        using g less.prems unfolding 6
        by (auto simp add: loop_eqs split: option.splits list.splits)
      then show ?thesis
      proof (elim disjE exE)
        fix ra' assume "dialAddrs_loop s p ra' n ex rest = Returned (r, s')"
        then show ?thesis using IH [of rest] 6 by simp
      next
        fix a ra' assume "dialAddrs_loop (limitedDial s p a) p ra' (n + 1) ex rest = Returned (r, s')"
        moreover have "length rest < length sched" using 6 by simp
        ultimately have "\<exists>js. s' = (limitedDial s p a)\<lparr>limiter := js\<rparr>"
          by (rule IH [rotated])
        then obtain js where "s' = (limitedDial s p a)\<lparr>limiter := js\<rparr>" ..
        then have "s' = s\<lparr>limiter := js\<rparr>" by (simp add: limitedDial_def)
        then show ?thesis by blast
      qed
    next
      case (7 r rest)
      then have "s' = s" using g less.prems by (simp add: loop_eqs)
      then show ?thesis using same by simp
    next
      case (8 resp rest)
      have "s' = s \<or> (\<exists>e. dialAddrs_loop s p ra (n - 1) e rest = Returned (r, s'))"
        using g less.prems unfolding 8
        by (cases "Err resp"; cases "Conn resp") (auto simp add: loop_eqs)
      then show ?thesis using same IH [of rest] 8 by auto
    next
      case (9 rest)
      then show ?thesis using g less.prems by (simp add: loop_eqs)
    qed
  qed
qed

lemma loop_conn:
  "dialAddrs_loop s p ra n ex sched = Returned (Inr c, s') \<Longrightarrow> c \<in> set (result_conns sched)"
proof (induction "length sched" arbitrary: sched s ra n ex rule: less_induct)
  case less
  show ?case
  proof (cases "ra \<noteq> None \<or> n > 0")
    case False
    then show ?thesis using less.prems by (simp add: loop_exit)
  next
    case g: True
    have IH: "c \<in> set (result_conns rest)"
      if "length rest < length sched" "dialAddrs_loop s p ra n ex rest = Returned (Inr c, s')"
      for rest s ra n ex
      using less.hyps [OF that] .
    show ?thesis
    proof (cases sched rule: sched_cases)
      case (3 resp rest)
      show ?thesis using g less.prems unfolding 3
        by (cases "Err resp"; cases "Conn resp") (auto simp add: loop_eqs 3 dest: IH [rotated])
    next
      case (6 rest)
      show ?thesis using g less.prems unfolding 6
        by (auto simp add: loop_eqs 6 split: option.splits list.splits dest!: IH [rotated])
    next
      case (8 resp rest)
      show ?thesis using g less.prems unfolding 8
        by (cases "Err resp"; cases "Conn resp") (auto simp add: loop_eqs 8 dest: IH [rotated])
    qed (use g less.prems in \<open>auto simp add: loop_eqs split: if_splits\<close>)
  qed
qed

lemma dialAddrs_frame:
  "dialAddrs s p addrs sched = Returned (r, s') \<Longrightarrow> \<exists>js. s' = s\<lparr>limiter := js\<rparr>"
proof -
  assume a: "dialAddrs s p addrs sched = Returned (r, s')"
  then obtain s1 where l: "dialAddrs_loop s p (Some addrs) 0 defaultDialFail sched = Returned (r, s1)"
    and s': "s' = s1\<lparr>limiter := limiter s1 @ [clearAllPeerDials p]\<rparr>"
    by (auto simp: dialAddrs_def split: outcome.splits prod.splits)
  from loop_frame [OF l] obtain js where "s1 = s\<lparr>limiter := js\<rparr>" by blast
  with s' have "s' = s\<lparr>limiter := js @ [clearAllPeerDials p]\<rparr>" by simp
  then show ?thesis by blast
qed

lemma dialAddrs_conn:
  "dialAddrs s p addrs sched = Returned (Inr c, s') \<Longrightarrow> c \<in> set (result_conns sched)"
  by (auto simp: dialAddrs_def split: outcome.splits prod.splits dest!: loop_conn)

text \<open>
  C6, as the code has it. When the race is waiting and the context is cancelled, the race
  returns an error: the latest error that a result carried, and the context's own reason
  only when no result carried one (or the latest is \<open>ErrNoRemoteAddrs\<close> itself).
\<close>

theorem dialAddrs_ctx_done:
  assumes "dialAddrs s p addrs pre = Waiting"
  shows "\<exists>s'. dialAddrs s p addrs (pre @ [SelDone r]) =
           Returned (Inl (if latest_err defaultDialFail pre = defaultDialFail then ctx_Err r
                          else latest_err defaultDialFail pre), s')"
proof -
  from assms have "dialAddrs_loop s p (Some addrs) 0 defaultDialFail pre = Waiting"
    by (auto simp: dialAddrs_def split: outcome.splits)
  from loop_ctx_done [OF this, of r] show ?thesis
    by (auto simp: dialAddrs_def)
qed

theorem dialAddrs_ctx_done_witness:
  "dialAddrs swarm0 ''QmPeer'' [tcp_addr] [SelDefault, SelAddr] = Waiting
   \<and> (\<exists>s'. dialAddrs swarm0 ''QmPeer'' [tcp_addr] [SelDefault, SelAddr, SelDone ctx_DeadlineExceeded]
          = Returned (Inl DeadlineExceeded, s'))"
proof -
  have h: "dialAddrs swarm0 ''QmPeer'' [tcp_addr] [SelDefault, SelAddr] = Waiting"
    by (simp add: dialAddrs_def loop_eqs)
  from dialAddrs_ctx_done [OF h, of ctx_DeadlineExceeded] h show ?thesis by simp
qed

text \<open>
  C6 as stated does not hold: after the dial of the one address has failed with
  "refused", a cancellation makes the race return "refused", not \<open>context.Canceled\<close>.
\<close>

theorem dialAddrs_prefers_observed_error:
  "dialAddrs swarm0 ''QmPeer'' [tcp_addr]
     [SelDefault, SelAddr,
      SelResp \<lparr>Conn = None, Addr = tcp_addr, Err = Some (OtherError ''refused'')\<rparr>,
      SelDone ctx_Canceled]
   = Returned (Inl (OtherError ''refused''),
       swarm0\<lparr>limiter := [AddDialJob \<lparr>addr = tcp_addr, peer = ''QmPeer''\<rparr>,
                           clearAllPeerDials ''QmPeer'']\<rparr>)
   \<and> OtherError ''refused'' \<noteq> ctx_Err ctx_Canceled"
  by (simp add: dialAddrs_def loop_eqs limitedDial_def swarm0_def defaultDialFail_def)

section \<open>Properties of \<open>dial\<close> and \<open>doDial\<close>\<close>

lemma addConn_error: "addConn s tc dir = (Inl err, s2) \<Longrightarrow> s2 = s"
  by (auto simp: addConn_def Let_def split: option.splits)

lemma addConn_ok:
  assumes "addConn s tc dir = (Inr c, s2)"
  shows "RawConn c = Some tc" and "s2 = s\<lparr>conns := conns s @ [c]\<rparr>"
  using assms
  by (auto simp: addConn_def Let_def RawConn_def split: option.splits)

text \<open>The ways in which \<open>dial\<close> returns.\<close>

lemma dial_Returned:
  assumes "dial s p sched = Returned (r, s1)"
  obtains (early) err where "r = Inl err" "s1 = s"
  | (race) addrs err where "dialAddrs s p addrs sched = Returned (Inl err, s1)" "r = Inl err"
  | (refused) addrs connC s' err where
      "dialAddrs s p addrs sched = Returned (Inr connC, s')"
      "addConn s' connC DirOutbound = (Inl err, s')" "r = Inl err"
      "s1 = s'\<lparr>closed_conns := closed_conns s' @ [connC]\<rparr>"
  | (added) addrs connC s' swarmC where
      "dialAddrs s p addrs sched = Returned (Inr connC, s')"
      "addConn s' connC DirOutbound = (Inr swarmC, s1)" "r = Inr swarmC"
proof (cases "p = local s \<or> peers_Addrs s p = [] \<or> filterKnownUndialables s (peers_Addrs s p) = []")
  case True
  then show ?thesis using assms early by (auto simp: dial_def Let_def split: if_splits)
next
  case False
  define addrs where "addrs =
     (case bestDest s of
        None \<Rightarrow> filterKnownUndialables s (peers_Addrs s p)
      | Some select \<Rightarrow>
          let bestAddrs = select p (filterKnownUndialables s (peers_Addrs s p)) in
          if length bestAddrs \<noteq> 0 then bestAddrs
          else filterKnownUndialables s (peers_Addrs s p))"
  have d: "dial s p sched =
     (case dialAddrs s p addrs sched of
        Waiting \<Rightarrow> Waiting
      | Impossible \<Rightarrow> Impossible
      | Returned (Inl err, s1) \<Rightarrow> Returned (Inl err, s1)
      | Returned (Inr connC, s1) \<Rightarrow>
          (case addConn s1 connC DirOutbound of
             (Inl err, s2) \<Rightarrow> Returned (Inl err, s2\<lparr>closed_conns := closed_conns s2 @ [connC]\<rparr>)
           | (Inr swarmC, s2) \<Rightarrow> Returned (Inr swarmC, s2)))"
    using False by (simp add: dial_def Let_def addrs_def)
  have e: "(case dialAddrs s p addrs sched of
        Waiting \<Rightarrow> Waiting
      | Impossible \<Rightarrow> Impossible
      | Returned (Inl err, s1) \<Rightarrow> Returned (Inl err, s1)
      | Returned (Inr connC, s1) \<Rightarrow>
          (case addConn s1 connC DirOutbound of
             (Inl err, s2) \<Rightarrow> Returned (Inl err, s2\<lparr>closed_conns := closed_conns s2 @ [connC]\<rparr>)
           | (Inr swarmC, s2) \<Rightarrow> Returned (Inr swarmC, s2))) = Returned (r, s1)"
    using assms unfolding d .
  show ?thesis
  proof (cases "dialAddrs s p addrs sched")
    case (Returned x)
    obtain r' s' where x: "dialAddrs s p addrs sched = Returned (r', s')"
      using Returned by (cases x) simp
    show ?thesis
    proof (cases r')
      case (Inl err)
      have "Returned (Inl err, s') = Returned (r, s1)"
        using e unfolding x Inl by simp
      then have "r = Inl err" "s' = s1" by simp_all
      then show ?thesis using race [of addrs err] x Inl by simp
    next
      case (Inr connC)
      obtain r2 s2 where a: "addConn s' connC DirOutbound = (r2, s2)"
        by (cases "addConn s' connC DirOutbound")
      show ?thesis
      proof (cases r2)
        case (Inl err)
        have s2: "s2 = s'" using a unfolding Inl by (rule addConn_error)
        have "Returned (Inl err, s2\<lparr>closed_conns := closed_conns s2 @ [connC]\<rparr>) = Returned (r, s1)"
          using e unfolding x Inr by (simp add: a Inl)
        then have "r = Inl err" "s1 = s'\<lparr>closed_conns := closed_conns s' @ [connC]\<rparr>"
          unfolding s2 by simp_all
        moreover have "dialAddrs s p addrs sched = Returned (Inr connC, s')"
          using x Inr by simp
        moreover have "addConn s' connC DirOutbound = (Inl err, s')"
          using a Inl s2 by simp
        ultimately show ?thesis using refused [of addrs connC s' err] by blast
      next
        case r2: (Inr swarmC)
        have "Returned (Inr swarmC, s2) = Returned (r, s1)"
          using e unfolding x Inr by (simp add: a r2)
        then have "r = Inr swarmC" "s2 = s1" by simp_all
        moreover have "dialAddrs s p addrs sched = Returned (Inr connC, s')"
          using x Inr by simp
        moreover have "addConn s' connC DirOutbound = (Inr swarmC, s1)"
          using a r2 \<open>s2 = s1\<close> by simp
        ultimately show ?thesis using added [of addrs connC s' swarmC] by blast
      qed
    qed
  next
    case Waiting
    then have False using e by simp
    then show ?thesis ..
  next
    case Impossible
    then have False using e by simp
    then show ?thesis ..
  qed
qed

lemma dial_error_keeps_backf:
  assumes "dial s p sched = Returned (Inl err, s1)"
  shows "backf s1 = backf s"
  using assms
proof (cases rule: dial_Returned)
  case (race addrs err)
  from dialAddrs_frame [OF race(1)] show ?thesis by auto
next
  case (refused addrs connC s' err)
  from dialAddrs_frame [OF refused(1)] refused(4) show ?thesis by auto
qed simp_all

text \<open>
  A dial that succeeds changes the calls on the limiter and the connections of the swarm
  only: neither \<open>dial\<close> nor \<open>doDial\<close> calls \<open>Clear\<close> or \<open>AddPubKey\<close>.
\<close>

lemma dial_success_keeps:
  assumes "dial s p sched = Returned (Inr c, s1)"
  shows "backf s1 = backf s \<and> peers_AddPubKey s1 = peers_AddPubKey s
       \<and> (\<exists>connC. connC \<in> set (result_conns sched) \<and> RawConn c = Some connC)"
  using assms
proof (cases rule: dial_Returned)
  case (added addrs connC s' swarmC)
  then have a: "addConn s' connC DirOutbound = (Inr c, s1)" by simp
  from dialAddrs_frame [OF added(1)] obtain js where "s' = s\<lparr>limiter := js\<rparr>" ..
  with addConn_ok [OF a] dialAddrs_conn [OF added(1)] show ?thesis by auto
qed simp_all

lemma doDial_success_keeps:
  assumes "bestConnToPeerWrapper s p = None" and "dial s p sched = Returned (Inr c, s1)"
  shows "doDial v now s p sched = Returned (Inr c, s1)
       \<and> backf s1 = backf s \<and> peers_AddPubKey s1 = peers_AddPubKey s"
  using assms dial_success_keeps [OF assms(2)] by (simp add: doDial_def)

text \<open>
  \<open>newConnSetup\<close>, which the dial does not go through, does add the key: for every
  connection over a \<open>conn.Conn\<close> that has a remote public key it succeeds, and the key is
  in the peer store under the remote peer of the connection.
\<close>

lemma newConnSetup_adds_key:
  assumes "NetConn psConn = a_conn_Conn rc" and "RemotePublicKey rc = Some k"
  shows "newConnSetup s psConn =
           Some (Inr (psConn\<lparr>Groups := Groups psConn @ [RemotePeer rc]\<rparr>),
                 s\<lparr>peers_AddPubKey := peers_AddPubKey s @ [(RemotePeer rc, k)]\<rparr>)"
  using assms
  by (simp add: newConnSetup_def wrapConn_def RawConn_def Conn_RemotePublicKey_def
        Conn_RemotePeer_def AddPubKey_def)

lemma newConnSetup_good_conn:
  "newConnSetup swarm0 \<lparr>NetConn = a_conn_Conn good_conn, Groups = []\<rparr> =
     Some (Inr \<lparr>NetConn = a_conn_Conn good_conn, Groups = [''QmPeer'']\<rparr>,
           swarm0\<lparr>peers_AddPubKey := [(''QmPeer'', ''key'')]\<rparr>)"
  by (simp add: newConnSetup_def wrapConn_def RawConn_def Conn_RemotePublicKey_def
        Conn_RemotePeer_def AddPubKey_def good_conn_def swarm0_def)

text \<open>
  C3, as the code has it. When the dial fails and no connection to the peer exists,
  \<open>doDial\<close> returns the error wrapped and calls \<open>AddBackoff\<close> unless the error is
  \<open>context.Canceled\<close>: a timeout, \<open>context.DeadlineExceeded\<close>, adds to the backoff.
\<close>

theorem doDial_adds_backoff_unless_Canceled:
  assumes "bestConnToPeerWrapper s p = None"
      and "dial s p sched = Returned (Inl err, s1)"
      and "bestConnToPeerFallbackWrapper s1 p = None"
  shows "\<exists>s'. doDial v now s p sched = Returned (Inl (DialAttemptFailed err), s')
           \<and> backf s' = (if err = Canceled then backf s else AddBackoff v now (backf s) p)"
  using assms dial_error_keeps_backf [OF assms(2)]
  by (simp add: doDial_def Let_def)

theorem doDial_adds_backoff_unless_Canceled_witness:
  "(\<exists>s'. doDial default_vars 100 swarm0 ''QmPeer'' [SelDefault, SelDone ctx_Canceled]
            = Returned (Inl (DialAttemptFailed Canceled), s')
          \<and> backf s' = backf swarm0)
   \<and> (\<exists>s'. doDial default_vars 100 swarm0 ''QmPeer''
              [SelDefault, SelAddr,
               SelResp \<lparr>Conn = None, Addr = tcp_addr, Err = Some (OtherError ''refused'')\<rparr>,
               SelDefault, SelAddr]
            = Returned (Inl (DialAttemptFailed (OtherError ''refused'')), s')
          \<and> backf s' = AddBackoff default_vars 100 (backf swarm0) ''QmPeer'')"
proof -
  have f: "filterKnownUndialables swarm0 [tcp_addr] = [tcp_addr]"
    by (simp add: filterKnownUndialables_def FilterAddrs_def SubtractFilter_def canDial_def
          FilterNeg_def swarm0_def tcp_addr_def honest_tpt_def Protocols_def P_IP4_def P_IP6_def)
  have a: "peers_Addrs swarm0 ''QmPeer'' = [tcp_addr]" "local swarm0 = ''me''"
    "bestDest swarm0 = None" "bestConnToPeerWrapper swarm0 ''QmPeer'' = None"
    by (simp_all add: swarm0_def)
  have fb: "bestConnToPeerFallbackWrapper (swarm0\<lparr>limiter := js\<rparr>) ''QmPeer'' = None" for js
    by (simp add: swarm0_def)
  have 1: "dial swarm0 ''QmPeer'' [SelDefault, SelDone ctx_Canceled]
         = Returned (Inl Canceled, swarm0\<lparr>limiter := limiter swarm0 @ [clearAllPeerDials ''QmPeer'']\<rparr>)"
    by (simp add: dial_def a f dialAddrs_def loop_eqs defaultDialFail_def)
  have 2: "dial swarm0 ''QmPeer''
              [SelDefault, SelAddr,
               SelResp \<lparr>Conn = None, Addr = tcp_addr, Err = Some (OtherError ''refused'')\<rparr>,
               SelDefault, SelAddr]
         = Returned (Inl (OtherError ''refused''),
             swarm0\<lparr>limiter := limiter swarm0 @ [AddDialJob \<lparr>addr = tcp_addr, peer = ''QmPeer''\<rparr>]
                        @ [clearAllPeerDials ''QmPeer'']\<rparr>)"
    by (simp add: dial_def a f dialAddrs_def loop_eqs loop_exit limitedDial_def defaultDialFail_def)
  show ?thesis
    using doDial_adds_backoff_unless_Canceled [OF a(4) 1 fb, of default_vars 100]
      doDial_adds_backoff_unless_Canceled [OF a(4) 2 fb, of default_vars 100]
    by simp
qed

text \<open>
  C3 as stated does not hold: a dial that fails by the timeout of its context adds a
  backoff entry for the peer.
\<close>

theorem doDial_timeout_adds_backoff:
  "doDial default_vars 100 swarm0 ''QmPeer'' [SelDefault, SelDone ctx_DeadlineExceeded]
     = Returned (Inl (DialAttemptFailed DeadlineExceeded),
         swarm0\<lparr>limiter := [clearAllPeerDials ''QmPeer''],
                 backf := AddBackoff default_vars 100 (backf swarm0) ''QmPeer''\<rparr>)
   \<and> lookup (backf swarm0) ''QmPeer'' = None
   \<and> lookup (AddBackoff default_vars 100 (backf swarm0) ''QmPeer'') ''QmPeer''
       = Some \<lparr>tries = 1, until = 5000000100\<rparr>"
proof -
  have f: "filterKnownUndialables swarm0 [tcp_addr] = [tcp_addr]"
    by (simp add: filterKnownUndialables_def FilterAddrs_def SubtractFilter_def canDial_def
          FilterNeg_def swarm0_def tcp_addr_def honest_tpt_def Protocols_def P_IP4_def P_IP6_def)
  have a: "peers_Addrs swarm0 ''QmPeer'' = [tcp_addr]" "local swarm0 = ''me''"
    "bestDest swarm0 = None" "bestConnToPeerWrapper swarm0 ''QmPeer'' = None"
    "limiter swarm0 = []" "backf swarm0 = zero_DialBackoff"
    "bestConnToPeerFallbackWrapper swarm0 ''QmPeer'' = None"
    by (simp_all add: swarm0_def)
  have fb: "bestConnToPeerFallbackWrapper (swarm0\<lparr>limiter := js\<rparr>) ''QmPeer'' = None" for js
    by (simp add: swarm0_def)
  have 1: "dial swarm0 ''QmPeer'' [SelDefault, SelDone ctx_DeadlineExceeded]
         = Returned (Inl DeadlineExceeded, swarm0\<lparr>limiter := [clearAllPeerDials ''QmPeer'']\<rparr>)"
    by (simp add: dial_def a f dialAddrs_def loop_eqs defaultDialFail_def)
  have 2: "lookup zero_DialBackoff ''QmPeer'' = None"
    by (simp add: zero_DialBackoff_def lookup_def)
  show ?thesis
    by (simp add: doDial_def a(4,6,7) 1 2 AddBackoff_absent default_vars_values)
qed

lemma swarm0_filter: "filterKnownUndialables swarm0 [tcp_addr] = [tcp_addr]"
  by (simp add: filterKnownUndialables_def FilterAddrs_def SubtractFilter_def canDial_def
        FilterNeg_def swarm0_def tcp_addr_def honest_tpt_def Protocols_def P_IP4_def P_IP6_def)

lemma swarm0_fields:
  "peers_Addrs swarm0 ''QmPeer'' = [tcp_addr]" "peers_Addrs swarm0 ''me'' = []"
  "local swarm0 = ''me''" "bestDest swarm0 = None" "bestConnToPeerWrapper swarm0 p = None"
  "bestConnToPeerFallbackWrapper swarm0 p = None" "limiter swarm0 = []"
  "backf swarm0 = zero_DialBackoff" "addConn_refuses swarm0 c = None" "conns swarm0 = []"
  "peers_AddPubKey swarm0 = []"
  by (simp_all add: swarm0_def)


text \<open>
  C5. When the dial returns an error and the fallback view of the connection table has a
  connection to the peer, \<open>doDial\<close> returns that connection and no error, and the backoff
  registry is as it was before the call.
\<close>

theorem doDial_fallback_suppresses_error:
  assumes "bestConnToPeerWrapper s p = None"
      and "dial s p sched = Returned (Inl err, s1)"
      and "bestConnToPeerFallbackWrapper s1 p = Some c"
  shows "doDial v now s p sched = Returned (Inr c, s1) \<and> backf s1 = backf s"
  using assms dial_error_keeps_backf [OF assms(2)]
  by (simp add: doDial_def)

theorem doDial_fallback_suppresses_error_witness:
  "\<exists>s1. doDial default_vars 100
       (swarm0\<lparr>bestConnToPeerFallbackWrapper :=
                  (\<lambda>p. Some \<lparr>NetConn = a_conn_Conn good_conn, Groups = [''QmPeer'']\<rparr>)\<rparr>)
       ''QmPeer'' [SelDefault, SelDone ctx_DeadlineExceeded]
     = Returned (Inr \<lparr>NetConn = a_conn_Conn good_conn, Groups = [''QmPeer'']\<rparr>, s1)
   \<and> backf s1 = zero_DialBackoff"
proof -
  let ?c = "\<lparr>NetConn = a_conn_Conn good_conn, Groups = [''QmPeer'']\<rparr>"
  let ?s = "swarm0\<lparr>bestConnToPeerFallbackWrapper := (\<lambda>p. Some ?c)\<rparr>"
  have f: "filterKnownUndialables ?s [tcp_addr] = [tcp_addr]"
    by (simp add: filterKnownUndialables_def FilterAddrs_def SubtractFilter_def canDial_def
          FilterNeg_def swarm0_def tcp_addr_def honest_tpt_def Protocols_def P_IP4_def P_IP6_def)
  have h1: "bestConnToPeerWrapper ?s ''QmPeer'' = None" by (simp add: swarm0_fields)
  have h2: "dial ?s ''QmPeer'' [SelDefault, SelDone ctx_DeadlineExceeded]
      = Returned (Inl DeadlineExceeded, ?s\<lparr>limiter := [clearAllPeerDials ''QmPeer'']\<rparr>)"
    by (simp add: dial_def f swarm0_fields dialAddrs_def loop_eqs defaultDialFail_def)
  have h3: "bestConnToPeerFallbackWrapper (?s\<lparr>limiter := [clearAllPeerDials ''QmPeer'']\<rparr>) ''QmPeer''
      = Some ?c" by simp
  from doDial_fallback_suppresses_error [OF h1 h2 h3, of default_vars 100]
  show ?thesis by (simp add: swarm0_fields)
qed

text \<open>
  C8. For every peer whose addresses \<open>dial\<close> fetches, that is every peer but the local
  one, which \<open>dialPeer\<close> and \<open>dial\<close> turn away before the peer store is asked, \<open>dial\<close>
  returns "no addresses" when the peer store has no address for it and "no good
  addresses" when the filter leaves none, and the swarm, with the calls made on the
  limiter, is as before.
\<close>

theorem dial_no_addresses:
  assumes "p \<noteq> local s"
  shows "(peers_Addrs s p = [] \<longrightarrow>
            dial s p sched = Returned (Inl (errors_New ''no addresses''), s))
       \<and> (peers_Addrs s p \<noteq> [] \<and> filterKnownUndialables s (peers_Addrs s p) = [] \<longrightarrow>
            dial s p sched = Returned (Inl (errors_New ''no good addresses''), s))"
  using assms by (simp add: dial_def Let_def)

theorem dial_no_addresses_witness:
  "dial swarm0 ''QmNobody'' [SelDefault, SelAddr] = Returned (Inl (errors_New ''no addresses''), swarm0)
   \<and> dial (swarm0\<lparr>Filters_AddrBlocked := (\<lambda>a. True)\<rparr>) ''QmPeer'' [SelDefault, SelAddr]
       = Returned (Inl (errors_New ''no good addresses''),
           swarm0\<lparr>Filters_AddrBlocked := (\<lambda>a. True)\<rparr>)"
proof -
  let ?s = "swarm0\<lparr>Filters_AddrBlocked := (\<lambda>a. True)\<rparr>"
  have 1: "''QmNobody'' \<noteq> local swarm0" "peers_Addrs swarm0 ''QmNobody'' = []"
    by (simp_all add: swarm0_def)
  have 2: "''QmPeer'' \<noteq> local ?s" "peers_Addrs ?s ''QmPeer'' \<noteq> []"
    "filterKnownUndialables ?s (peers_Addrs ?s ''QmPeer'') = []"
    by (simp_all add: swarm0_fields filterKnownUndialables_def FilterAddrs_def FilterNeg_def)
  show ?thesis
    using dial_no_addresses [OF 1(1), of "[SelDefault, SelAddr]"] 1(2)
      dial_no_addresses [OF 2(1), of "[SelDefault, SelAddr]"] 2(2,3)
    by simp
qed

text \<open>
  C9. For a valid peer identifier that is the local peer, \<open>dialPeer\<close> returns
  \<open>ErrDialToSelf\<close> whatever the run, and the swarm is as before: nothing was given to the
  limiter, through which every dial of a transport goes.
\<close>

theorem dialPeer_self:
  assumes "Validate p = None" and "p = local s"
  shows "dialPeer v now0 now s p sched = Returned (Inl ErrDialToSelf, s)"
  using assms by (simp add: dialPeer_def)

theorem dialPeer_self_witness:
  "Validate ''me'' = None \<and> ''me'' = local swarm0
   \<and> dialPeer default_vars 0 100 swarm0 ''me'' [SelDefault, SelAddr]
       = Returned (Inl ErrDialToSelf, swarm0)"
proof -
  have h: "Validate ''me'' = None" "''me'' = local swarm0"
    by (simp_all add: Validate_def swarm0_def)
  from dialPeer_self [OF h, of default_vars 0 100 "[SelDefault, SelAddr]"] h
  show ?thesis by simp
qed

end
